theory Spec2Isabelle
  imports Complex_Main "HOL-Library.Sublist"
begin

section \<open>Strings and numbers of the host language\<close>

text \<open>
  Advice texts, patterns and log entries are \<^typ>\<open>string\<close>s: a text is the list of the
  bytes of its UTF-8 encoding, and a character of ASCII is one byte with the top bit
  clear.

  \<open>String.prototype.toLowerCase\<close> maps every code point to its lower-case form in
  the Unicode character database. For ASCII that is the table \<open>A\<close> .. \<open>Z\<close> to
  \<open>a\<close> .. \<open>z\<close>. Two code points outside ASCII have a lower-case form with an ASCII
  letter in it: U+212A (Kelvin sign, bytes \<open>E2 84 AA\<close>) becomes \<open>k\<close>, and U+0130
  (capital I with dot above, bytes \<open>C4 B0\<close>) becomes \<open>i\<close> followed by U+0307
  (bytes \<open>CC 87\<close>). The lower-case forms of all other code points are a table of the
  engine's Unicode version and no part of this program: they are the parameter \<open>U\<close>
  of the model. \<open>U seen c rest\<close> is what the byte \<open>c\<close> of such a code point
  contributes to the result when the bytes \<open>seen\<close> precede it and the bytes \<open>rest\<close>
  follow it (the other bytes of the code point are among them, and so is the context
  that the final-sigma rule reads). Every theorem below holds for every such table.
\<close>

definition toLowerCase_char :: "char \<Rightarrow> char" where
  "toLowerCase_char c =
     (case map_of (zip ''ABCDEFGHIJKLMNOPQRSTUVWXYZ'' ''abcdefghijklmnopqrstuvwxyz'') c of
        Some l \<Rightarrow> l
      | None \<Rightarrow> c)"

type_synonym case_table = "string \<Rightarrow> char \<Rightarrow> string \<Rightarrow> string"

text \<open>The table in which no other code point has a lower-case form of its own.\<close>

definition caseless :: case_table where
  "caseless seen c rest = [c]"

fun lowerFrom :: "case_table \<Rightarrow> string \<Rightarrow> string \<Rightarrow> string" where
  "lowerFrom U seen [] = []"
| "lowerFrom U seen (c # rest) =
     (if \<not> digit7 c then toLowerCase_char c # lowerFrom U (seen @ [c]) rest
      else if prefix [CHR 0xE2, CHR 0x84, CHR 0xAA] (c # rest)
      then CHR ''k'' # lowerFrom U (seen @ [CHR 0xE2, CHR 0x84, CHR 0xAA]) (drop 2 rest)
      else if prefix [CHR 0xC4, CHR 0xB0] (c # rest)
      then CHR ''i'' # CHR 0xCC # CHR 0x87 #
           lowerFrom U (seen @ [CHR 0xC4, CHR 0xB0]) (drop 1 rest)
      else U seen c rest @ lowerFrom U (seen @ [c]) rest)"

definition toLowerCase :: "case_table \<Rightarrow> string \<Rightarrow> string" where
  "toLowerCase U s = lowerFrom U [] s"

text \<open>
  \<open>includes_str s t\<close> is \<open>s.includes(t)\<close>: \<open>t\<close> occurs in \<open>s\<close> as a contiguous
  run of characters. The empty string occurs in every string.
\<close>

fun includes_str :: "string \<Rightarrow> string \<Rightarrow> bool" where
  "includes_str [] t = (t = [])"
| "includes_str (c # s) t = (prefix t (c # s) \<or> includes_str s t)"

text \<open>
  A number of the host language, as far as the verifier computes with it: an exact
  rational, or \<open>NaN\<close> (the quotient \<open>0 / 0\<close>). Rounding to double precision is not
  modelled.
\<close>

datatype number = NaN | Number rat

text \<open>
  A property read \<open>obj[key]\<close> on an object literal finds the literal's own entry, or
  else a member inherited from \<open>Object.prototype\<close> (a function, or for \<open>__proto__\<close>
  the prototype object itself: truthy, not a string, not iterable), or else
  \<open>undefined\<close>. An object literal is the list of its entries; the literals of this
  program repeat no key.
\<close>

datatype 'a property = Own 'a | Inherited string | Undefined

definition Object_prototype :: "string list" where
  "Object_prototype =
     [''constructor'', ''hasOwnProperty'', ''isPrototypeOf'', ''propertyIsEnumerable'',
      ''toLocaleString'', ''toString'', ''valueOf'', ''__proto__'',
      ''__defineGetter__'', ''__defineSetter__'', ''__lookupGetter__'', ''__lookupSetter__'']"

definition get_property :: "(string \<times> 'a) list \<Rightarrow> string \<Rightarrow> 'a property" where
  "get_property obj k =
     (case map_of obj k of
        Some v \<Rightarrow> Own v
      | None \<Rightarrow> if List.member Object_prototype k then Inherited k else Undefined)"

text \<open>
  The type annotations of the source are not enforced when the program runs: a field or
  result declared with type \<open>'a\<close> holds a value of that type, or a member of
  \<open>Object.prototype\<close> that a property read let through.
\<close>

datatype 'a dynamic = Typed 'a | ProtoMember string

section \<open>The syllabus\<close>

record CoachingPrinciple =
  category :: string
  keywordList :: "string list"
  validAdvice :: "string list"
  invalidPatterns :: "string list"
  corrections :: "(string \<times> string) list"

text \<open>
  \<open>corrections\<close> lists the entries of the object in the order of \<open>Object.entries\<close>.
  The field \<open>keywords\<close> of the source is \<open>keywordList\<close> here, and the field
  \<open>category\<close> of a verdict is \<open>verdict_category\<close>.
\<close>

definition moba :: "CoachingPrinciple list" where
  "moba =
    [\<lparr>category = ''positioning'',
      keywordList = [''position'', ''map'', ''ward'', ''vision'', ''safe'', ''engage''],
      validAdvice = [''Stay behind minions'', ''Ward river bushes'', ''Position for objectives'',
                     ''Maintain safe distance'', ''Group with team''],
      invalidPatterns = [''always engage'', ''never retreat'', ''ignore map''],
      corrections = [(''engage without vision'', ''Ward before engaging''),
                     (''chase kills'', ''Focus on objectives'')]\<rparr>,
     \<lparr>category = ''itemization'',
      keywordList = [''item'', ''build'', ''buy'', ''gold'', ''shop'', ''upgrade''],
      validAdvice = [''Build armor against AD'', ''Buy magic resist'', ''Prioritize core items'',
                     ''Ward instead of damage''],
      invalidPatterns = [''always same build'', ''ignore enemy comp''],
      corrections = [(''build same every game'', ''Adapt to enemy composition'')]\<rparr>,
     \<lparr>category = ''teamfight'',
      keywordList = [''fight'', ''team'', ''engage'', ''disengage'', ''focus'', ''target''],
      validAdvice = [''Focus carry targets'', ''Protect your ADC'', ''Wait for initiation'',
                     ''Disengage when low''],
      invalidPatterns = [''fight without team'', ''chase into jungle''],
      corrections = [(''1v5 engage'', ''Wait for team coordination'')]\<rparr>]"

definition fighting :: "CoachingPrinciple list" where
  "fighting =
    [\<lparr>category = ''fundamentals'',
      keywordList = [''block'', ''punish'', ''frame'', ''spacing'', ''neutral'', ''combo''],
      validAdvice = [''Block low attacks'', ''Punish unsafe moves'', ''Maintain proper spacing'',
                     ''Practice anti-airs'', ''Learn frame data''],
      invalidPatterns = [''mash buttons'', ''always attack'', ''ignore defense''],
      corrections = [(''button mashing'', ''Focus on precise inputs''),
                     (''always aggressive'', ''Mix offense with defense'')]\<rparr>,
     \<lparr>category = ''mixups'',
      keywordList = [''mix'', ''overhead'', ''throw'', ''pressure'', ''reset'', ''setup''],
      validAdvice = [''Mix highs and lows'', ''Use throw techs'', ''Create frame traps'',
                     ''Reset to neutral''],
      invalidPatterns = [''same combo always'', ''predictable patterns''],
      corrections = [(''repetitive offense'', ''Vary your attack patterns'')]\<rparr>]"

definition sport :: "CoachingPrinciple list" where
  "sport =
    [\<lparr>category = ''possession'',
      keywordList = [''pass'', ''possession'', ''ball'', ''control'', ''tempo'', ''build''],
      validAdvice = [''Maintain possession'', ''Pass to open players'', ''Control game tempo'',
                     ''Build from defense'', ''Switch play wide''],
      invalidPatterns = [''always sprint'', ''long ball only'', ''ignore midfield''],
      corrections = [(''rush forward'', ''Build play patiently''),
                     (''ignore passing'', ''Use short passes to maintain control'')]\<rparr>,
     \<lparr>category = ''defense'',
      keywordList = [''defend'', ''pressure'', ''tackle'', ''cover'', ''shape'', ''compact''],
      validAdvice = [''Press high'', ''Maintain defensive shape'', ''Cover passing lanes'',
                     ''Track runner''],
      invalidPatterns = [''always tackle'', ''break formation'', ''ball watching''],
      corrections = [(''dive in'', ''Stay disciplined in defense''),
                     (''chase ball'', ''Maintain positional discipline'')]\<rparr>,
     \<lparr>category = ''attacking'',
      keywordList = [''attack'', ''cross'', ''shoot'', ''run'', ''overlap'', ''finish''],
      validAdvice = [''Make overlapping runs'', ''Cross early'', ''Shoot when in box'',
                     ''Create width''],
      invalidPatterns = [''shoot from anywhere'', ''never pass'', ''static attack''],
      corrections = [(''selfish play'', ''Look for better positioned teammates'')]\<rparr>]"

definition COACHING_SYLLABUS :: "(string \<times> CoachingPrinciple list) list" where
  "COACHING_SYLLABUS = [(''moba'', moba), (''fighting'', fighting), (''sport'', sport)]"

section \<open>The verifier\<close>

record CoachingVerifier =
  currentGameSyllabus :: "CoachingPrinciple list dynamic"
  sessionErrors :: "string list"

text \<open>
  The constructor \<open>new CoachingVerifier(gameCategory)\<close>:
  \<open>COACHING_SYLLABUS[gameCategory] || []\<close>. An array is truthy, also when it is empty,
  and so is every member of \<open>Object.prototype\<close>; only \<open>undefined\<close> is replaced by
  the empty list. The constructor raises no error.
\<close>

definition new_CoachingVerifier :: "string \<Rightarrow> CoachingVerifier" where
  "new_CoachingVerifier gameCategory =
     \<lparr>currentGameSyllabus =
        (case get_property COACHING_SYLLABUS gameCategory of
           Own principles \<Rightarrow> Typed principles
         | Inherited k \<Rightarrow> ProtoMember k
         | Undefined \<Rightarrow> Typed []),
      sessionErrors = []\<rparr>"

record Verdict =
  isValid :: bool
  modifiedAdvice :: "string dynamic option"
  verdict_category :: "string option"
  confidence :: number
  warning :: "string option"

datatype error = TypeError

fun findCorrection :: "string \<Rightarrow> (string \<times> string) list \<Rightarrow> string option" where
  "findCorrection invalidPattern [] = None"
| "findCorrection invalidPattern ((pattern, correction) # rest) =
     (if includes_str pattern invalidPattern \<or> includes_str invalidPattern pattern
      then Some correction
      else findCorrection invalidPattern rest)"

definition genericAdvice :: "(string \<times> string) list" where
  "genericAdvice =
     [(''positioning'', ''Focus on safe positioning''),
      (''itemization'', ''Build according to game state''),
      (''teamfight'', ''Coordinate with your team''),
      (''fundamentals'', ''Practice your basics''),
      (''mixups'', ''Vary your approach''),
      (''possession'', ''Maintain ball control''),
      (''defense'', ''Stay organized defensively''),
      (''attacking'', ''Look for scoring opportunities'')]"

text \<open>\<open>genericAdvice[category] || "Focus on fundamentals"\<close>: the empty string is falsy.\<close>

definition getGenericAdvice :: "string \<Rightarrow> string dynamic" where
  "getGenericAdvice cat =
     (case get_property genericAdvice cat of
        Own a \<Rightarrow> if a = [] then Typed ''Focus on fundamentals'' else Typed a
      | Inherited k \<Rightarrow> ProtoMember k
      | Undefined \<Rightarrow> Typed ''Focus on fundamentals'')"

definition isGenerallyValid :: "case_table \<Rightarrow> string \<Rightarrow> bool" where
  "isGenerallyValid U advice =
     (let lowerAdvice = toLowerCase U advice;
          invalidTerms = [''always'', ''never'', ''impossible'', ''guaranteed''];
          hasInvalidTerms = list_ex (\<lambda>term. includes_str lowerAdvice term) invalidTerms;
          actionableTerms = [''try'', ''focus'', ''consider'', ''practice'', ''improve'', ''work on''];
          hasActionableTerms = list_ex (\<lambda>term. includes_str lowerAdvice term) actionableTerms
      in \<not> hasInvalidTerms \<and> hasActionableTerms)"

text \<open>
  \<open>matchesCategory\<close> receives the lower-cased advice. Both loops add to \<open>score\<close>;
  \<open>score / maxScore\<close> is \<open>NaN\<close> when the principle has no keyword and no phrase, and
  \<open>NaN > 0.3\<close> is false.
\<close>

definition matchesCategory :: "case_table \<Rightarrow> string \<Rightarrow> CoachingPrinciple \<Rightarrow> bool \<times> number" where
  "matchesCategory U advice principle =
     (let maxScore = length (keywordList principle) + length (validAdvice principle);
          score = fold (\<lambda>keyword score. if includes_str advice keyword then score + 1 else score)
                    (keywordList principle) (0::nat);
          score = fold (\<lambda>validPattern score.
                          if includes_str advice (toLowerCase U validPattern) then score + 2 else score)
                    (validAdvice principle) score;
          confidence = (if maxScore = 0 then NaN
                        else Number (min (of_nat score / of_nat maxScore) 1))
      in ((case confidence of NaN \<Rightarrow> False | Number c \<Rightarrow> c > 3 / 10), confidence))"

definition enhanceAdvice :: "case_table \<Rightarrow> string \<Rightarrow> CoachingPrinciple \<Rightarrow> string" where
  "enhanceAdvice U advice principle =
     (let lowerAdvice = toLowerCase U advice in
      if category principle = ''positioning'' \<and> includes_str lowerAdvice ''position''
      then advice @ '' - Consider enemy threat ranges''
      else if category principle = ''itemization'' \<and> includes_str lowerAdvice ''buy''
      then advice @ '' - Check enemy builds first''
      else advice)"

text \<open>
  \<open>logError\<close> appends the clock reading \<open>new Date().toISOString()\<close> (the argument
  \<open>isoNow\<close>), a colon and the message. The line written to the console is not part of
  the state.
\<close>

definition logError :: "string \<Rightarrow> string \<Rightarrow> CoachingVerifier \<Rightarrow> CoachingVerifier" where
  "logError err isoNow v = v\<lparr>sessionErrors := sessionErrors v @ [isoNow @ '': '' @ err]\<rparr>"

text \<open>The first loop of \<open>verifyAdvice\<close>: the inner loop over one principle's patterns ...\<close>

fun firstInvalidPattern :: "string \<Rightarrow> string list \<Rightarrow> string option" where
  "firstInvalidPattern lowerAdvice [] = None"
| "firstInvalidPattern lowerAdvice (invalidPattern # rest) =
     (if includes_str lowerAdvice invalidPattern then Some invalidPattern
      else firstInvalidPattern lowerAdvice rest)"

text \<open>... and the outer loop over the principles, which returns at the first hit.\<close>

fun invalidPass :: "string \<Rightarrow> CoachingPrinciple list \<Rightarrow> (CoachingPrinciple \<times> string) option" where
  "invalidPass lowerAdvice [] = None"
| "invalidPass lowerAdvice (principle # rest) =
     (case firstInvalidPattern lowerAdvice (invalidPatterns principle) of
        Some invalidPattern \<Rightarrow> Some (principle, invalidPattern)
      | None \<Rightarrow> invalidPass lowerAdvice rest)"

text \<open>The second loop: the first principle that \<open>matchesCategory\<close> accepts.\<close>

fun positivePass :: "case_table \<Rightarrow> string \<Rightarrow> CoachingPrinciple list \<Rightarrow> (CoachingPrinciple \<times> number) option" where
  "positivePass U lowerAdvice [] = None"
| "positivePass U lowerAdvice (principle # rest) =
     (let categoryMatch = matchesCategory U lowerAdvice principle in
      if fst categoryMatch then Some (principle, snd categoryMatch)
      else positivePass U lowerAdvice rest)"

text \<open>
  \<open>verifyAdvice U advice gameContext isoNow v\<close>: the verdict and the verifier after the
  call, or the \<open>TypeError\<close> that \<open>for ... of\<close> raises on a value that is not iterable.
\<close>

definition verifyAdvice ::
  "case_table \<Rightarrow> string \<Rightarrow> 'ctx option \<Rightarrow> string \<Rightarrow> CoachingVerifier \<Rightarrow> error + (Verdict \<times> CoachingVerifier)" where
  "verifyAdvice U advice gameContext isoNow v =
     (case currentGameSyllabus v of
        ProtoMember k \<Rightarrow> Inl TypeError
      | Typed syllabus \<Rightarrow>
          (let lowerAdvice = toLowerCase U advice in
           case invalidPass lowerAdvice syllabus of
             Some (principle, invalidPattern) \<Rightarrow>
               (let correction = findCorrection invalidPattern (corrections principle) in
                Inr (\<lparr>isValid = False,
                      modifiedAdvice =
                        Some (case correction of
                                None \<Rightarrow> getGenericAdvice (category principle)
                              | Some c \<Rightarrow> if c = [] then getGenericAdvice (category principle)
                                          else Typed c),
                      verdict_category = Some (category principle),
                      confidence = Number (3 / 10),
                      warning = Some (''Advice contradicts expert principles for ''
                                      @ category principle)\<rparr>,
                     logError (''Invalid advice detected: '' @ advice) isoNow v))
           | None \<Rightarrow>
               (case positivePass U lowerAdvice syllabus of
                  Some (principle, conf) \<Rightarrow>
                    Inr (\<lparr>isValid = True,
                          modifiedAdvice = Some (Typed (enhanceAdvice U advice principle)),
                          verdict_category = Some (category principle),
                          confidence = conf,
                          warning = None\<rparr>, v)
                | None \<Rightarrow>
                    Inr (\<lparr>isValid = isGenerallyValid U advice,
                          modifiedAdvice = None,
                          verdict_category = None,
                          confidence = Number (6 / 10),
                          warning = (if isGenerallyValid U advice then None
                                     else Some ''Advice not aligned with coaching principles'')\<rparr>,
                         v))))"

text \<open>
  \<open>validateTimeSensitivity U advice timestamp currentGameTime now\<close>, with \<open>now\<close> the
  reading of \<open>Date.now()\<close> in milliseconds.
\<close>

definition timeSensitiveTerms :: "(string list \<times> int) list" where
  "timeSensitiveTerms =
     [([''engage'', ''attack'', ''push''], 3000),
      ([''defend'', ''retreat'', ''back''], 5000),
      ([''ward'', ''position'', ''farm''], 10000)]"

fun scanTiers :: "string \<Rightarrow> int \<Rightarrow> (string list \<times> int) list \<Rightarrow> bool" where
  "scanTiers lowerAdvice timeDiff [] = True"
| "scanTiers lowerAdvice timeDiff ((terms, maxDelay) # rest) =
     (if list_ex (\<lambda>term. includes_str lowerAdvice term) terms then timeDiff \<le> maxDelay
      else scanTiers lowerAdvice timeDiff rest)"

definition validateTimeSensitivity :: "case_table \<Rightarrow> string \<Rightarrow> int \<Rightarrow> 'g option \<Rightarrow> int \<Rightarrow> bool" where
  "validateTimeSensitivity U advice timestamp currentGameTime now =
     (let timeDiff = now - timestamp;
          lowerAdvice = toLowerCase U advice
      in scanTiers lowerAdvice timeDiff timeSensitiveTerms)"

definition getSessionErrors :: "CoachingVerifier \<Rightarrow> string list" where
  "getSessionErrors v = sessionErrors v"

definition resetSession :: "CoachingVerifier \<Rightarrow> CoachingVerifier" where
  "resetSession v = v\<lparr>sessionErrors := []\<rparr>"

section \<open>Notions of the specification\<close>

text \<open>
  The specification speaks of the first matching (principle, invalid pattern) pair in
  list order. \<open>first_invalid_at ps low i j\<close>: pattern \<open>j\<close> of principle \<open>i\<close> occurs
  in the lower-cased text \<open>low\<close>, no pattern of an earlier principle does, and no
  earlier pattern of principle \<open>i\<close> does.
\<close>

definition first_invalid_at :: "CoachingPrinciple list \<Rightarrow> string \<Rightarrow> nat \<Rightarrow> nat \<Rightarrow> bool" where
  "first_invalid_at ps low i j =
     (i < length ps \<and> j < length (invalidPatterns (ps ! i)) \<and>
      sublist (invalidPatterns (ps ! i) ! j) low \<and>
      list_all (\<lambda>q. list_all (\<lambda>x. \<not> sublist x low) (invalidPatterns q)) (take i ps) \<and>
      list_all (\<lambda>x. \<not> sublist x low) (take j (invalidPatterns (ps ! i))))"

text \<open>
  The match score in the specification's words: one point for every keyword that occurs
  in the lower-cased text, two for every phrase of \<open>validAdvice\<close> that occurs in it
  (compared in lower case); the confidence is the score divided by the number of
  keywords and phrases, at most 1.
\<close>

definition spec_score :: "case_table \<Rightarrow> string \<Rightarrow> CoachingPrinciple \<Rightarrow> nat" where
  "spec_score U low p =
     length (filter (\<lambda>k. sublist k low) (keywordList p)) +
     2 * length (filter (\<lambda>a. sublist (toLowerCase U a) low) (validAdvice p))"

definition spec_confidence :: "case_table \<Rightarrow> string \<Rightarrow> CoachingPrinciple \<Rightarrow> rat" where
  "spec_confidence U low p =
     min (of_nat (spec_score U low p) / of_nat (length (keywordList p) + length (validAdvice p))) 1"

text \<open>
  What the lookup of a replacement text relies on: no correction of the principle is the
  empty string (which \<open>||\<close> would pass over), and its category has a generic advice
  text. Every principle of the shipped syllabus is of this kind.
\<close>

definition well_formed :: "CoachingPrinciple \<Rightarrow> bool" where
  "well_formed p =
     (list_all (\<lambda>kc. snd kc \<noteq> []) (corrections p) \<and>
      (case getGenericAdvice (category p) of Typed g \<Rightarrow> True | ProtoMember k \<Rightarrow> False))"


section \<open>Substrings and the two passes\<close>

lemma includes_str_sublist: "includes_str s t = sublist t s"
  by (induction s) (simp_all add: sublist_Cons_right)

lemma firstInvalidPattern_None:
  "(firstInvalidPattern low pats = None) = list_all (\<lambda>x. \<not> sublist x low) pats"
  by (induction pats) (simp_all add: includes_str_sublist)

lemma firstInvalidPattern_at:
  "j < length pats \<Longrightarrow> sublist (pats ! j) low \<Longrightarrow>
   list_all (\<lambda>x. \<not> sublist x low) (take j pats) \<Longrightarrow>
   firstInvalidPattern low pats = Some (pats ! j)"
proof (induction pats arbitrary: j)
  case Nil
  then show ?case by simp
next
  case (Cons x xs)
  show ?case
  proof (cases j)
    case 0
    with Cons.prems show ?thesis by (simp add: includes_str_sublist)
  next
    case (Suc k)
    with Cons.prems have "firstInvalidPattern low xs = Some (xs ! k)"
      by (intro Cons.IH) simp_all
    with Suc Cons.prems show ?thesis by (simp add: includes_str_sublist)
  qed
qed

lemma firstInvalidPattern_Some_ex:
  "firstInvalidPattern low pats = Some pat \<Longrightarrow>
   \<exists>j. j < length pats \<and> pat = pats ! j \<and> sublist pat low \<and>
       list_all (\<lambda>x. \<not> sublist x low) (take j pats)"
proof (induction pats)
  case Nil
  then show ?case by simp
next
  case (Cons x xs)
  show ?case
  proof (cases "sublist x low")
    case True
    with Cons.prems have "pat = x" by (simp add: includes_str_sublist)
    with True show ?thesis by (intro exI [of _ 0]) simp
  next
    case False
    with Cons.prems have "firstInvalidPattern low xs = Some pat"
      by (simp add: includes_str_sublist)
    from Cons.IH [OF this] obtain k where
      "k < length xs" "pat = xs ! k" "sublist pat low"
      "list_all (\<lambda>x. \<not> sublist x low) (take k xs)" by blast
    with False show ?thesis by (intro exI [of _ "Suc k"]) simp
  qed
qed

lemma invalidPass_None:
  "(invalidPass low ps = None) =
   list_all (\<lambda>q. list_all (\<lambda>x. \<not> sublist x low) (invalidPatterns q)) ps"
  by (induction ps) (simp_all add: firstInvalidPattern_None [symmetric] split: option.splits)

lemma invalidPass_at:
  "first_invalid_at ps low i j \<Longrightarrow>
   invalidPass low ps = Some (ps ! i, invalidPatterns (ps ! i) ! j)"
proof (induction ps arbitrary: i)
  case Nil
  then show ?case by (simp add: first_invalid_at_def)
next
  case (Cons p ps)
  show ?case
  proof (cases i)
    case 0
    with Cons.prems have "firstInvalidPattern low (invalidPatterns p) = Some (invalidPatterns p ! j)"
      by (intro firstInvalidPattern_at) (simp_all add: first_invalid_at_def)
    with 0 show ?thesis by simp
  next
    case (Suc k)
    with Cons.prems have "first_invalid_at ps low k j"
      and "firstInvalidPattern low (invalidPatterns p) = None"
      by (simp_all add: first_invalid_at_def firstInvalidPattern_None)
    with Suc Cons.IH [of k] show ?thesis by simp
  qed
qed

lemma invalidPass_Some_ex:
  "invalidPass low ps = Some (p, pat) \<Longrightarrow>
   \<exists>i j. first_invalid_at ps low i j \<and> p = ps ! i \<and> pat = invalidPatterns (ps ! i) ! j"
proof (induction ps)
  case Nil
  then show ?case by simp
next
  case (Cons q qs)
  show ?case
  proof (cases "firstInvalidPattern low (invalidPatterns q)")
    case None
    with Cons.prems have "invalidPass low qs = Some (p, pat)" by simp
    from Cons.IH [OF this] obtain i j where
      "first_invalid_at qs low i j" "p = qs ! i" "pat = invalidPatterns (qs ! i) ! j" by blast
    with None have "first_invalid_at (q # qs) low (Suc i) j \<and> p = (q # qs) ! Suc i \<and>
        pat = invalidPatterns ((q # qs) ! Suc i) ! j"
      by (simp add: first_invalid_at_def firstInvalidPattern_None)
    then show ?thesis by blast
  next
    case (Some x)
    with Cons.prems have px: "p = q" "pat = x" by simp_all
    from firstInvalidPattern_Some_ex [OF Some] obtain j where
      "j < length (invalidPatterns q)" "x = invalidPatterns q ! j" "sublist x low"
      "list_all (\<lambda>x. \<not> sublist x low) (take j (invalidPatterns q))" by blast
    with px have "first_invalid_at (q # qs) low 0 j \<and> p = (q # qs) ! 0 \<and>
        pat = invalidPatterns ((q # qs) ! 0) ! j"
      by (simp add: first_invalid_at_def)
    then show ?thesis by blast
  qed
qed

lemma first_invalid_at_unique:
  assumes "first_invalid_at ps low i j" and "first_invalid_at ps low i' j'"
  shows "i' = i \<and> j' = j"
proof -
  have lt: "\<not> a < b" if "first_invalid_at ps low a c" "first_invalid_at ps low b d" for a b c d
  proof
    assume "a < b"
    with that have "ps ! a \<in> set (take b ps)"
      by (auto simp: first_invalid_at_def in_set_conv_nth intro!: exI [of _ a])
    with that(2) have "list_all (\<lambda>x. \<not> sublist x low) (invalidPatterns (ps ! a))"
      by (simp add: first_invalid_at_def list_all_iff)
    moreover from that(1) have "invalidPatterns (ps ! a) ! c \<in> set (invalidPatterns (ps ! a))"
      and "sublist (invalidPatterns (ps ! a) ! c) low"
      by (simp_all add: first_invalid_at_def)
    ultimately show False by (simp add: list_all_iff)
  qed
  from lt [OF assms] lt [OF assms(2) assms(1)] have i: "i' = i" by simp
  have ltj: "\<not> a < b" if "first_invalid_at ps low i a" "first_invalid_at ps low i b" for a b
  proof
    assume "a < b"
    with that have "invalidPatterns (ps ! i) ! a \<in> set (take b (invalidPatterns (ps ! i)))"
      by (auto simp: first_invalid_at_def in_set_conv_nth intro!: exI [of _ a])
    with that show False by (simp add: first_invalid_at_def list_all_iff)
  qed
  from ltj [of j j'] ltj [of j' j] assms i have "j' = j" by simp
  with i show ?thesis by simp
qed

lemma hit_iff_invalidPass:
  "(\<exists>p\<in>set ps. \<exists>x\<in>set (invalidPatterns p). sublist x low) = (invalidPass low ps \<noteq> None)"
  by (simp add: invalidPass_None list_all_iff)


lemma fold_count:
  "fold (\<lambda>x (n::nat). if P x then n + c else n) xs a = a + c * length (filter P xs)"
  by (induction xs arbitrary: a) simp_all

lemma score_spec:
  "fold (\<lambda>validPattern score.
           if includes_str low (toLowerCase U validPattern) then score + 2 else score)
     (validAdvice p)
     (fold (\<lambda>keyword score. if includes_str low keyword then score + 1 else score)
        (keywordList p) (0::nat)) = spec_score U low p"
  unfolding fold_count spec_score_def includes_str_sublist by simp

lemma matchesCategory_spec:
  "matchesCategory U low p =
     (3 / 10 < spec_confidence U low p,
      if length (keywordList p) + length (validAdvice p) = 0 then NaN
      else Number (spec_confidence U low p))"
  unfolding matchesCategory_def Let_def score_spec
  by (simp add: spec_confidence_def)

lemma positivePass_None:
  "(positivePass U low ps = None) = list_all (\<lambda>q. spec_confidence U low q \<le> 3 / 10) ps"
  by (induction ps) (auto simp: matchesCategory_spec Let_def not_less)

lemma positive_has_entries:
  "3 / 10 < spec_confidence U low p \<Longrightarrow> length (keywordList p) + length (validAdvice p) \<noteq> 0"
  by (auto simp: spec_confidence_def)

lemma positivePass_at:
  "i < length ps \<Longrightarrow> 3 / 10 < spec_confidence U low (ps ! i) \<Longrightarrow>
   list_all (\<lambda>q. spec_confidence U low q \<le> 3 / 10) (take i ps) \<Longrightarrow>
   positivePass U low ps = Some (ps ! i, Number (spec_confidence U low (ps ! i)))"
proof (induction ps arbitrary: i)
  case Nil
  then show ?case by simp
next
  case (Cons p ps)
  show ?case
  proof (cases i)
    case 0
    with Cons.prems positive_has_entries [of U low p] show ?thesis
      by (simp add: matchesCategory_spec Let_def)
  next
    case (Suc k)
    with Cons.prems have "positivePass U low ps = Some (ps ! k, Number (spec_confidence U low (ps ! k)))"
      by (intro Cons.IH) simp_all
    with Suc Cons.prems show ?thesis
      by (simp add: matchesCategory_spec Let_def not_less [symmetric])
  qed
qed

lemma isGenerallyValid_spec:
  "isGenerallyValid U advice =
     ((\<exists>t\<in>set [''try'', ''focus'', ''consider'', ''practice'', ''improve'', ''work on''].
         sublist t (toLowerCase U advice)) \<and>
      \<not> (\<exists>t\<in>set [''always'', ''never'', ''impossible'', ''guaranteed''].
         sublist t (toLowerCase U advice)))"
  unfolding isGenerallyValid_def Let_def list_ex_iff includes_str_sublist by blast

lemma enhanceAdvice_spec:
  "enhanceAdvice U advice p =
     (if category p = ''positioning'' \<and> sublist ''position'' (toLowerCase U advice)
      then advice @ '' - Consider enemy threat ranges''
      else if category p = ''itemization'' \<and> sublist ''buy'' (toLowerCase U advice)
      then advice @ '' - Check enemy builds first''
      else advice)"
  unfolding enhanceAdvice_def Let_def includes_str_sublist by (rule refl)

lemma verifyAdvice_reject:
  assumes "currentGameSyllabus v = Typed ps"
    and "invalidPass (toLowerCase U advice) ps = Some (p, pat)"
  shows "verifyAdvice U advice ctx isoNow v =
     Inr (\<lparr>isValid = False,
           modifiedAdvice =
             Some (case findCorrection pat (corrections p) of
                     None \<Rightarrow> getGenericAdvice (category p)
                   | Some c \<Rightarrow> if c = [] then getGenericAdvice (category p) else Typed c),
           verdict_category = Some (category p),
           confidence = Number (3 / 10),
           warning = Some (''Advice contradicts expert principles for '' @ category p)\<rparr>,
          v\<lparr>sessionErrors := sessionErrors v @ [isoNow @ '': Invalid advice detected: '' @ advice]\<rparr>)"
  using assms by (simp add: verifyAdvice_def logError_def)

lemma verifyAdvice_accept:
  assumes "currentGameSyllabus v = Typed ps"
    and "invalidPass (toLowerCase U advice) ps = None"
    and "positivePass U (toLowerCase U advice) ps = Some (p, c)"
  shows "verifyAdvice U advice ctx isoNow v =
     Inr (\<lparr>isValid = True,
           modifiedAdvice = Some (Typed (enhanceAdvice U advice p)),
           verdict_category = Some (category p),
           confidence = c,
           warning = None\<rparr>, v)"
  using assms by (simp add: verifyAdvice_def)

lemma verifyAdvice_generic:
  assumes "currentGameSyllabus v = Typed ps"
    and "invalidPass (toLowerCase U advice) ps = None"
    and "positivePass U (toLowerCase U advice) ps = None"
  shows "verifyAdvice U advice ctx isoNow v =
     Inr (\<lparr>isValid = isGenerallyValid U advice,
           modifiedAdvice = None,
           verdict_category = None,
           confidence = Number (6 / 10),
           warning = (if isGenerallyValid U advice then None
                      else Some ''Advice not aligned with coaching principles'')\<rparr>, v)"
  using assms by (simp add: verifyAdvice_def)

lemma verdict_only_syllabus:
  "currentGameSyllabus v = currentGameSyllabus v' \<Longrightarrow>
   map_sum id fst (verifyAdvice U advice ctx isoNow v) =
   map_sum id fst (verifyAdvice U advice ctx' isoNow' v')"
  by (simp add: verifyAdvice_def Let_def split: dynamic.splits option.splits prod.splits)

lemma scanTiers_spec:
  "scanTiers low d timeSensitiveTerms =
     (if \<exists>t\<in>set [''engage'', ''attack'', ''push'']. sublist t low then d \<le> 3000
      else if \<exists>t\<in>set [''defend'', ''retreat'', ''back'']. sublist t low then d \<le> 5000
      else if \<exists>t\<in>set [''ward'', ''position'', ''farm'']. sublist t low then d \<le> 10000
      else True)"
  unfolding timeSensitiveTerms_def scanTiers.simps list_ex_iff includes_str_sublist
  by (rule refl)



section \<open>The shipped syllabus\<close>

lemma new_moba: "new_CoachingVerifier ''moba'' = \<lparr>currentGameSyllabus = Typed moba, sessionErrors = []\<rparr>"
  by (simp add: new_CoachingVerifier_def get_property_def COACHING_SYLLABUS_def)

lemma new_fighting:
  "new_CoachingVerifier ''fighting'' = \<lparr>currentGameSyllabus = Typed fighting, sessionErrors = []\<rparr>"
  by (simp add: new_CoachingVerifier_def get_property_def COACHING_SYLLABUS_def)

lemma new_sport:
  "new_CoachingVerifier ''sport'' = \<lparr>currentGameSyllabus = Typed sport, sessionErrors = []\<rparr>"
  by (simp add: new_CoachingVerifier_def get_property_def COACHING_SYLLABUS_def)

lemma moba_well_formed: "list_all well_formed moba"
  by code_simp

lemma fighting_well_formed: "list_all well_formed fighting"
  by code_simp

lemma sport_well_formed: "list_all well_formed sport"
  by code_simp

lemma constructed_syllabus:
  assumes "currentGameSyllabus (new_CoachingVerifier gameCategory) = Typed ps"
  shows "ps = moba \<or> ps = fighting \<or> ps = sport \<or> ps = []"
  using assms
  by (auto simp: new_CoachingVerifier_def get_property_def COACHING_SYLLABUS_def
      split: if_splits)

lemma constructed_well_formed:
  assumes "currentGameSyllabus (new_CoachingVerifier gameCategory) = Typed ps"
  shows "list_all well_formed ps"
  using constructed_syllabus [OF assms] moba_well_formed fighting_well_formed sport_well_formed
  by auto


text \<open>
  No invalid pattern of the shipped syllabus is related to a key of its principle's
  \<open>corrections\<close> by containment in either direction: \<open>findCorrection\<close> finds
  nothing for any of them.
\<close>

lemma corrections_never_found:
  "list_all (\<lambda>p. list_all (\<lambda>pat. findCorrection pat (corrections p) = None) (invalidPatterns p))
     (moba @ fighting @ sport)"
  by code_simp

text \<open>
  A game category that is neither supported nor the name of a member of
  \<open>Object.prototype\<close> gives the empty principle list, and every advice is then decided
  by the generic heuristic.
\<close>

lemma unknown_category_generic:
  assumes "gameCategory \<noteq> ''moba''" "gameCategory \<noteq> ''fighting''" "gameCategory \<noteq> ''sport''"
    and "\<not> List.member Object_prototype gameCategory"
  shows "new_CoachingVerifier gameCategory = \<lparr>currentGameSyllabus = Typed [], sessionErrors = []\<rparr> \<and>
     verifyAdvice U advice ctx isoNow (new_CoachingVerifier gameCategory) =
       Inr (\<lparr>isValid = isGenerallyValid U advice,
             modifiedAdvice = None,
             verdict_category = None,
             confidence = Number (6 / 10),
             warning = (if isGenerallyValid U advice then None
                        else Some ''Advice not aligned with coaching principles'')\<rparr>,
            new_CoachingVerifier gameCategory)"
proof -
  from assms have new: "new_CoachingVerifier gameCategory =
      \<lparr>currentGameSyllabus = Typed [], sessionErrors = []\<rparr>"
    by (simp add: new_CoachingVerifier_def get_property_def COACHING_SYLLABUS_def)
  then have "currentGameSyllabus (new_CoachingVerifier gameCategory) = Typed []" by simp
  from verifyAdvice_generic [OF this, of U advice ctx isoNow] new show ?thesis by simp
qed

section \<open>Texts outside ASCII\<close>

text \<open>
  On a text of ASCII characters the table \<open>U\<close> is not consulted.
\<close>

lemma toLowerCase_ascii:
  "list_all (\<lambda>c. \<not> digit7 c) s \<Longrightarrow> toLowerCase U s = map toLowerCase_char s"
proof -
  have "list_all (\<lambda>c. \<not> digit7 c) s \<Longrightarrow> lowerFrom U seen s = map toLowerCase_char s" for seen
    by (induction s arbitrary: seen) simp_all
  then show "list_all (\<lambda>c. \<not> digit7 c) s \<Longrightarrow> toLowerCase U s = map toLowerCase_char s"
    by (simp add: toLowerCase_def)
qed

text \<open>
  The Kelvin sign and the dotted capital I are folded to \<open>k\<close> and \<open>i\<close>, so that an
  invalid pattern, a keyword or a tier term spelled with one of them is found: the
  fighting verifier rejects an \<open>"always attack"\<close> written with the Kelvin sign, the
  sport verifier finds \<open>"always tackle"\<close> of its second principle before
  \<open>"never pass"\<close> of its third, the keyword \<open>block\<close> counts towards
  \<open>fundamentals\<close>, and \<open>attack\<close> puts the advice in the 3000 ms tier.
\<close>

lemma kelvin_sign_folds:
  "toLowerCase U (''ALWAYS ATTAC'' @ [CHR 0xE2, CHR 0x84, CHR 0xAA]) = ''always attack''"
  by code_simp

lemma dotted_capital_I_folds:
  "toLowerCase U ([CHR 0xC4, CHR 0xB0] @ ''GNORE MAP'') = CHR ''i'' # CHR 0xCC # CHR 0x87 # ''gnore map''"
  by code_simp

lemma kelvin_invalid_pattern:
  "verifyAdvice U (''ALWAYS ATTAC'' @ [CHR 0xE2, CHR 0x84, CHR 0xAA]) ctx isoNow
       (new_CoachingVerifier ''fighting'') =
     Inr (\<lparr>isValid = False,
           modifiedAdvice = Some (Typed ''Practice your basics''),
           verdict_category = Some ''fundamentals'',
           confidence = Number (3 / 10),
           warning = Some ''Advice contradicts expert principles for fundamentals''\<rparr>,
          \<lparr>currentGameSyllabus = Typed fighting,
           sessionErrors = [isoNow @ '': Invalid advice detected: ALWAYS ATTAC''
                            @ [CHR 0xE2, CHR 0x84, CHR 0xAA]]\<rparr>)"
proof -
  let ?a = "''ALWAYS ATTAC'' @ [CHR 0xE2, CHR 0x84, CHR 0xAA]"
  have typed: "currentGameSyllabus (new_CoachingVerifier ''fighting'') = Typed fighting"
    by (simp add: new_fighting)
  have at: "first_invalid_at fighting (toLowerCase U ?a) 0 1"
    by code_simp
  have pat: "invalidPatterns (fighting ! 0) ! 1 = ''always attack''"
    by (simp add: fighting_def)
  have cat: "category (fighting ! 0) = ''fundamentals''"
    by (simp add: fighting_def)
  have corr: "findCorrection ''always attack'' (corrections (fighting ! 0)) = None"
    by code_simp
  have gen: "getGenericAdvice ''fundamentals'' = Typed ''Practice your basics''"
    by code_simp
  from verifyAdvice_reject [OF typed invalidPass_at [OF at], of ctx isoNow]
  show ?thesis unfolding pat corr cat gen by (simp add: new_fighting)
qed

lemma kelvin_first_pair:
  "verifyAdvice U (''ALWAYS TAC'' @ [CHR 0xE2, CHR 0x84, CHR 0xAA] @ ''LE, never pass'') ctx isoNow
       (new_CoachingVerifier ''sport'') =
     Inr (\<lparr>isValid = False,
           modifiedAdvice = Some (Typed ''Stay organized defensively''),
           verdict_category = Some ''defense'',
           confidence = Number (3 / 10),
           warning = Some ''Advice contradicts expert principles for defense''\<rparr>,
          \<lparr>currentGameSyllabus = Typed sport,
           sessionErrors = [isoNow @ '': Invalid advice detected: ALWAYS TAC''
                            @ [CHR 0xE2, CHR 0x84, CHR 0xAA] @ ''LE, never pass'']\<rparr>)"
proof -
  let ?a = "''ALWAYS TAC'' @ [CHR 0xE2, CHR 0x84, CHR 0xAA] @ ''LE, never pass''"
  have typed: "currentGameSyllabus (new_CoachingVerifier ''sport'') = Typed sport"
    by (simp add: new_sport)
  have at: "first_invalid_at sport (toLowerCase U ?a) 1 0"
    by code_simp
  have pat: "invalidPatterns (sport ! 1) ! 0 = ''always tackle''"
    by (simp add: sport_def)
  have cat: "category (sport ! 1) = ''defense''"
    by (simp add: sport_def)
  have corr: "findCorrection ''always tackle'' (corrections (sport ! 1)) = None"
    by code_simp
  have gen: "getGenericAdvice ''defense'' = Typed ''Stay organized defensively''"
    by code_simp
  from verifyAdvice_reject [OF typed invalidPass_at [OF at], of ctx isoNow]
  show ?thesis unfolding pat corr cat gen by (simp add: new_sport)
qed

lemma kelvin_positive_match:
  "verifyAdvice U (''BLOC'' @ [CHR 0xE2, CHR 0x84, CHR 0xAA]
                   @ '' punish frame spacing mix overhead throw pressure'') ctx isoNow
       (new_CoachingVerifier ''fighting'') =
     Inr (\<lparr>isValid = True,
           modifiedAdvice = Some (Typed (''BLOC'' @ [CHR 0xE2, CHR 0x84, CHR 0xAA]
                   @ '' punish frame spacing mix overhead throw pressure'')),
           verdict_category = Some ''fundamentals'',
           confidence = Number (4 / 11),
           warning = None\<rparr>,
          new_CoachingVerifier ''fighting'')"
proof -
  let ?a = "''BLOC'' @ [CHR 0xE2, CHR 0x84, CHR 0xAA]
              @ '' punish frame spacing mix overhead throw pressure''"
  have typed: "currentGameSyllabus (new_CoachingVerifier ''fighting'') = Typed fighting"
    by (simp add: new_fighting)
  have "list_all (\<lambda>q. list_all (\<lambda>x. \<not> sublist x (toLowerCase U ?a)) (invalidPatterns q)) fighting"
    by code_simp
  then have inv: "invalidPass (toLowerCase U ?a) fighting = None"
    by (simp add: invalidPass_None)
  have i: "0 < length fighting"
    by (simp add: fighting_def)
  have conf: "spec_confidence U (toLowerCase U ?a) (fighting ! 0) = 4 / 11"
    by code_simp
  then have pos: "3 / 10 < spec_confidence U (toLowerCase U ?a) (fighting ! 0)"
    by simp
  have cat: "category (fighting ! 0) = ''fundamentals''"
    by (simp add: fighting_def)
  from positivePass_at [OF i pos]
  have "positivePass U (toLowerCase U ?a) fighting = Some (fighting ! 0, Number (4 / 11))"
    unfolding conf by simp
  from verifyAdvice_accept [OF typed inv this, of ctx isoNow]
  show ?thesis unfolding enhanceAdvice_spec cat by simp
qed

lemma kelvin_time_tier:
  "validateTimeSensitivity U (''ATTAC'' @ [CHR 0xE2, CHR 0x84, CHR 0xAA] @ '' now'')
     timestamp currentGameTime now = (now - timestamp \<le> 3000)"
proof -
  have "list_ex (\<lambda>term. includes_str
          (toLowerCase U (''ATTAC'' @ [CHR 0xE2, CHR 0x84, CHR 0xAA] @ '' now'')) term)
          [''engage'', ''attack'', ''push'']"
    by code_simp
  then show ?thesis
    by (simp add: validateTimeSensitivity_def timeSensitiveTerms_def)
qed

text \<open>
  The name of any member of \<open>Object.prototype\<close> as game category gives a verifier on
  which \<open>verifyAdvice\<close> raises.
\<close>

lemma inherited_names_raise:
  "list_all (\<lambda>k. verifyAdvice U advice ctx isoNow (new_CoachingVerifier k) = Inl TypeError)
     Object_prototype"
  by (simp add: verifyAdvice_def new_CoachingVerifier_def get_property_def COACHING_SYLLABUS_def
      Object_prototype_def)

section \<open>The claims\<close>

subsection \<open>C1: the first invalid pattern decides\<close>

text \<open>
  Claim C1. Let the verifier hold a list of principles, and let the lower-cased advice
  contain an invalid pattern of one of them. Then there is exactly one first matching
  (principle, pattern) pair in list order, and \<open>verifyAdvice\<close> returns the rejection
  built from that pair (its correction or generic advice, its category, confidence 0.3,
  the warning for its category) and appends the log entry. Nothing is assumed about
  keywords or \<open>validAdvice\<close> phrases: a positive match of an earlier principle does
  not change the result, so neither the positive pass nor the generic fallback is
  reached.
\<close>

theorem invalid_pattern_first_pair_wins:
  assumes typed: "currentGameSyllabus v = Typed ps"
    and hit: "\<exists>p\<in>set ps. \<exists>x\<in>set (invalidPatterns p). sublist x (toLowerCase U advice)"
  shows "\<exists>i j. first_invalid_at ps (toLowerCase U advice) i j \<and>
           (\<forall>i' j'. first_invalid_at ps (toLowerCase U advice) i' j' \<longrightarrow> i' = i \<and> j' = j) \<and>
           verifyAdvice U advice ctx isoNow v =
             Inr (\<lparr>isValid = False,
                   modifiedAdvice =
                     Some (case findCorrection (invalidPatterns (ps ! i) ! j) (corrections (ps ! i)) of
                             None \<Rightarrow> getGenericAdvice (category (ps ! i))
                           | Some c \<Rightarrow> if c = [] then getGenericAdvice (category (ps ! i))
                                       else Typed c),
                   verdict_category = Some (category (ps ! i)),
                   confidence = Number (3 / 10),
                   warning = Some (''Advice contradicts expert principles for ''
                                   @ category (ps ! i))\<rparr>,
                  v\<lparr>sessionErrors :=
                      sessionErrors v @ [isoNow @ '': Invalid advice detected: '' @ advice]\<rparr>)"
proof -
  from hit obtain p pat where "invalidPass (toLowerCase U advice) ps = Some (p, pat)"
    by (auto simp: hit_iff_invalidPass)
  from invalidPass_Some_ex [OF this] obtain i j
    where fi: "first_invalid_at ps (toLowerCase U advice) i j" by blast
  have "\<forall>i' j'. first_invalid_at ps (toLowerCase U advice) i' j' \<longrightarrow> i' = i \<and> j' = j"
    using first_invalid_at_unique [OF fi] by blast
  moreover note verifyAdvice_reject [OF typed invalidPass_at [OF fi], of ctx isoNow]
  ultimately show ?thesis using fi by blast
qed

text \<open>
  C1 at a concrete input: the text matches four keywords of the first moba principle
  (\<open>positioning\<close>, accepted by \<open>matchesCategory\<close>) and an invalid pattern of the
  third (\<open>teamfight\<close>); the verdict is the rejection for \<open>teamfight\<close>.
\<close>

theorem invalid_pattern_first_pair_wins_witness:
  "first_invalid_at moba (toLowerCase caseless ''Position map ward vision fight without team'') 2 0 \<and>
   fst (matchesCategory caseless (toLowerCase caseless ''Position map ward vision fight without team'') (moba ! 0)) \<and>
   verifyAdvice caseless ''Position map ward vision fight without team'' (None :: unit option)
       ''2025-07-08T10:00:00.000Z'' (new_CoachingVerifier ''moba'') =
     Inr (\<lparr>isValid = False,
           modifiedAdvice = Some (Typed ''Coordinate with your team''),
           verdict_category = Some ''teamfight'',
           confidence = Number (3 / 10),
           warning = Some ''Advice contradicts expert principles for teamfight''\<rparr>,
          \<lparr>currentGameSyllabus = Typed moba,
           sessionErrors = [''2025-07-08T10:00:00.000Z: Invalid advice detected: Position map ward vision fight without team'']\<rparr>)"
proof -
  let ?a = "''Position map ward vision fight without team''"
  have typed: "currentGameSyllabus (new_CoachingVerifier ''moba'') = Typed moba"
    by (simp add: new_moba)
  have hit: "\<exists>p\<in>set moba. \<exists>x\<in>set (invalidPatterns p). sublist x (toLowerCase caseless ?a)"
    by code_simp
  have at: "first_invalid_at moba (toLowerCase caseless ?a) 2 0"
    by code_simp
  have pos: "fst (matchesCategory caseless (toLowerCase caseless ?a) (moba ! 0))"
    by code_simp
  have cat: "category (moba ! 2) = ''teamfight''"
    by (simp add: moba_def)
  have corr: "findCorrection (invalidPatterns (moba ! 2) ! 0) (corrections (moba ! 2)) = None"
    by code_simp
  have gen: "getGenericAdvice ''teamfight'' = Typed ''Coordinate with your team''"
    by code_simp
  from invalid_pattern_first_pair_wins [OF typed hit, of "None :: unit option" "''2025-07-08T10:00:00.000Z''"]
  obtain i j where
    uniq: "\<forall>i' j'. first_invalid_at moba (toLowerCase caseless ?a) i' j' \<longrightarrow> i' = i \<and> j' = j"
    and res: "verifyAdvice caseless ?a (None :: unit option) ''2025-07-08T10:00:00.000Z'' (new_CoachingVerifier ''moba'') =
             Inr (\<lparr>isValid = False,
                   modifiedAdvice =
                     Some (case findCorrection (invalidPatterns (moba ! i) ! j) (corrections (moba ! i)) of
                             None \<Rightarrow> getGenericAdvice (category (moba ! i))
                           | Some c \<Rightarrow> if c = [] then getGenericAdvice (category (moba ! i))
                                       else Typed c),
                   verdict_category = Some (category (moba ! i)),
                   confidence = Number (3 / 10),
                   warning = Some (''Advice contradicts expert principles for ''
                                   @ category (moba ! i))\<rparr>,
                  (new_CoachingVerifier ''moba'')\<lparr>sessionErrors :=
                      sessionErrors (new_CoachingVerifier ''moba'') @ [''2025-07-08T10:00:00.000Z'' @ '': Invalid advice detected: '' @ ?a]\<rparr>)"
    by blast
  from uniq at have ij: "i = 2" "j = 0" by auto
  from res have "verifyAdvice caseless ?a (None :: unit option) ''2025-07-08T10:00:00.000Z'' (new_CoachingVerifier ''moba'') =
     Inr (\<lparr>isValid = False,
           modifiedAdvice = Some (Typed ''Coordinate with your team''),
           verdict_category = Some ''teamfight'',
           confidence = Number (3 / 10),
           warning = Some ''Advice contradicts expert principles for teamfight''\<rparr>,
          \<lparr>currentGameSyllabus = Typed moba,
           sessionErrors = [''2025-07-08T10:00:00.000Z: Invalid advice detected: Position map ward vision fight without team'']\<rparr>)"
    unfolding ij corr cat gen by (simp add: new_moba)
  with at pos show ?thesis by blast
qed

subsection \<open>C2: the rejection verdict and the log\<close>



subsection \<open>C3: the example of the specification\<close>

text \<open>
  Claim C3 expects \<open>"Ward before engaging"\<close> as \<open>modifiedAdvice\<close> for the moba text
  \<open>"I should always engage without vision"\<close>. That text is the value of the key
  \<open>"engage without vision"\<close> in the \<open>corrections\<close> of \<open>positioning\<close>, but the
  lookup compares the keys with the matched invalid pattern, \<open>"always engage"\<close>, not
  with the advice; no key is related to it, and the verdict carries the generic advice
  for \<open>positioning\<close> instead. What the code returns:
\<close>

theorem engage_without_vision_gets_generic_advice:
  "verifyAdvice U ''I should always engage without vision'' ctx isoNow (new_CoachingVerifier ''moba'') =
     Inr (\<lparr>isValid = False,
           modifiedAdvice = Some (Typed ''Focus on safe positioning''),
           verdict_category = Some ''positioning'',
           confidence = Number (3 / 10),
           warning = Some ''Advice contradicts expert principles for positioning''\<rparr>,
          \<lparr>currentGameSyllabus = Typed moba,
           sessionErrors = [isoNow @ '': Invalid advice detected: I should always engage without vision'']\<rparr>)"
proof -
  let ?a = "''I should always engage without vision''"
  have typed: "currentGameSyllabus (new_CoachingVerifier ''moba'') = Typed moba"
    by (simp add: new_moba)
  have at: "first_invalid_at moba (toLowerCase U ?a) 0 0"
    by code_simp
  have pat: "invalidPatterns (moba ! 0) ! 0 = ''always engage''"
    by (simp add: moba_def)
  have cat: "category (moba ! 0) = ''positioning''"
    by (simp add: moba_def)
  have corr: "findCorrection ''always engage'' (corrections (moba ! 0)) = None"
    by code_simp
  have gen: "getGenericAdvice ''positioning'' = Typed ''Focus on safe positioning''"
    by code_simp
  from verifyAdvice_reject [OF typed invalidPass_at [OF at], of ctx isoNow]
  show ?thesis unfolding pat corr cat gen by (simp add: new_moba)
qed

subsection \<open>C4: which rejections are logged\<close>

text \<open>
  Claim C4 says that every rejection appends a log entry, those of the generic
  fallback included. The code logs in the invalid-pattern pass only: the moba verifier
  rejects \<open>"hello"\<close> by the generic heuristic and is left as it was, with an empty
  log.
\<close>

theorem generic_rejection_not_logged:
  "verifyAdvice caseless ''hello'' (None :: unit option) ''2025-07-08T10:00:00.000Z''
       (new_CoachingVerifier ''moba'') =
     Inr (\<lparr>isValid = False,
           modifiedAdvice = None,
           verdict_category = None,
           confidence = Number (6 / 10),
           warning = Some ''Advice not aligned with coaching principles''\<rparr>,
          new_CoachingVerifier ''moba'') \<and>
   getSessionErrors (new_CoachingVerifier ''moba'') = []"
proof -
  have typed: "currentGameSyllabus (new_CoachingVerifier ''moba'') = Typed moba"
    by (simp add: new_moba)
  have "list_all (\<lambda>q. list_all (\<lambda>x. \<not> sublist x (toLowerCase caseless ''hello'')) (invalidPatterns q)) moba"
    by code_simp
  then have inv: "invalidPass (toLowerCase caseless ''hello'') moba = None"
    by (simp add: invalidPass_None)
  have "list_all (\<lambda>q. spec_confidence caseless (toLowerCase caseless ''hello'') q \<le> 3 / 10) moba"
    by code_simp
  then have pos: "positivePass caseless (toLowerCase caseless ''hello'') moba = None"
    by (simp add: positivePass_None)
  have gv: "isGenerallyValid caseless ''hello'' = False"
    by code_simp
  from verifyAdvice_generic [OF typed inv pos, of "None :: unit option" "''2025-07-08T10:00:00.000Z''"]
  show ?thesis unfolding gv by (simp add: new_moba getSessionErrors_def)
qed

text \<open>
  Claim C4 as amended. When \<open>verifyAdvice\<close> returns \<open>isValid = False\<close>, the log has
  grown by exactly one entry if the lower-cased advice contains an invalid pattern of
  the syllabus, and is unchanged otherwise (a rejection by the generic fallback).
\<close>

theorem rejections_logged_only_by_invalid_pass:
  assumes typed: "currentGameSyllabus v = Typed ps"
    and res: "verifyAdvice U advice ctx isoNow v = Inr (verdict, v')"
    and rej: "\<not> isValid verdict"
  shows "sessionErrors v' =
     (if \<exists>p\<in>set ps. \<exists>x\<in>set (invalidPatterns p). sublist x (toLowerCase U advice)
      then sessionErrors v @ [isoNow @ '': Invalid advice detected: '' @ advice]
      else sessionErrors v)"
proof (cases "invalidPass (toLowerCase U advice) ps")
  case None
  note inv = this
  then have nohit: "\<not> (\<exists>p\<in>set ps. \<exists>x\<in>set (invalidPatterns p). sublist x (toLowerCase U advice))"
    by (simp add: hit_iff_invalidPass)
  show ?thesis
  proof (cases "positivePass U (toLowerCase U advice) ps")
    case None
    from verifyAdvice_generic [OF typed inv None, of ctx isoNow] res nohit
    show ?thesis by simp
  next
    case (Some pc)
    obtain p c where "pc = (p, c)" by (cases pc)
    with Some verifyAdvice_accept [OF typed inv, of p c ctx isoNow] res rej
    show ?thesis by auto
  qed
next
  case (Some pp)
  obtain p pat where pp: "pp = (p, pat)" by (cases pp)
  from Some have "\<exists>p\<in>set ps. \<exists>x\<in>set (invalidPatterns p). sublist x (toLowerCase U advice)"
    by (simp add: hit_iff_invalidPass)
  with Some pp verifyAdvice_reject [OF typed, of U advice p pat ctx isoNow] res
  show ?thesis by auto
qed

text \<open>
  C4 as amended at a concrete input: \<open>"Never retreat"\<close> is rejected by the invalid
  pattern pass of the moba verifier, and the log grows by one entry.
\<close>

theorem rejections_logged_only_by_invalid_pass_witness:
  "verifyAdvice caseless ''Never retreat'' (None :: unit option) ''2025-07-08T10:00:00.000Z''
       (new_CoachingVerifier ''moba'') =
     Inr (\<lparr>isValid = False,
           modifiedAdvice = Some (Typed ''Focus on safe positioning''),
           verdict_category = Some ''positioning'',
           confidence = Number (3 / 10),
           warning = Some ''Advice contradicts expert principles for positioning''\<rparr>,
          \<lparr>currentGameSyllabus = Typed moba,
           sessionErrors = [''2025-07-08T10:00:00.000Z: Invalid advice detected: Never retreat'']\<rparr>) \<and>
   sessionErrors \<lparr>currentGameSyllabus = Typed moba,
           sessionErrors = [''2025-07-08T10:00:00.000Z: Invalid advice detected: Never retreat'']\<rparr> =
     sessionErrors (new_CoachingVerifier ''moba'') @
       [''2025-07-08T10:00:00.000Z'' @ '': Invalid advice detected: '' @ ''Never retreat'']"
proof -
  let ?a = "''Never retreat''"
  have typed: "currentGameSyllabus (new_CoachingVerifier ''moba'') = Typed moba"
    by (simp add: new_moba)
  have at: "first_invalid_at moba (toLowerCase caseless ?a) 0 1"
    by code_simp
  have hit: "(\<exists>p\<in>set moba. \<exists>x\<in>set (invalidPatterns p). sublist x (toLowerCase caseless ?a)) = True"
    by code_simp
  have pat: "invalidPatterns (moba ! 0) ! 1 = ''never retreat''"
    by (simp add: moba_def)
  have cat: "category (moba ! 0) = ''positioning''"
    by (simp add: moba_def)
  have corr: "findCorrection ''never retreat'' (corrections (moba ! 0)) = None"
    by code_simp
  have gen: "getGenericAdvice ''positioning'' = Typed ''Focus on safe positioning''"
    by code_simp
  from verifyAdvice_reject [OF typed invalidPass_at [OF at], of "None :: unit option" "''2025-07-08T10:00:00.000Z''"]
  have res: "verifyAdvice caseless ?a (None :: unit option) ''2025-07-08T10:00:00.000Z''
       (new_CoachingVerifier ''moba'') =
     Inr (\<lparr>isValid = False,
           modifiedAdvice = Some (Typed ''Focus on safe positioning''),
           verdict_category = Some ''positioning'',
           confidence = Number (3 / 10),
           warning = Some ''Advice contradicts expert principles for positioning''\<rparr>,
          \<lparr>currentGameSyllabus = Typed moba,
           sessionErrors = [''2025-07-08T10:00:00.000Z: Invalid advice detected: Never retreat'']\<rparr>)"
    unfolding pat corr cat gen by (simp add: new_moba)
  from rejections_logged_only_by_invalid_pass [OF typed res] res
  show ?thesis unfolding hit by simp
qed

subsection \<open>C5: the positive-match pass\<close>

text \<open>
  Claim C5. Let the verifier hold a list of principles and let the lower-cased advice
  contain no invalid pattern. If principle \<open>i\<close> is the first whose confidence (score
  over the number of keywords and phrases, at most 1; one point per keyword and two per
  phrase that occurs in the lower-cased text) exceeds 0.3, then \<open>verifyAdvice\<close> accepts
  with that principle's category, that confidence and no warning, and leaves the log
  alone. \<open>modifiedAdvice\<close> is the advice followed by a fixed clause when the category
  is \<open>positioning\<close> and the text contains \<open>position\<close>, or the category is
  \<open>itemization\<close> and the text contains \<open>buy\<close>; otherwise it is the advice itself.
\<close>

theorem positive_match_first_principle:
  assumes typed: "currentGameSyllabus v = Typed ps"
    and nohit: "\<forall>p\<in>set ps. \<forall>x\<in>set (invalidPatterns p). \<not> sublist x (toLowerCase U advice)"
    and i: "i < length ps"
    and pos: "3 / 10 < spec_confidence U (toLowerCase U advice) (ps ! i)"
    and first: "\<forall>q\<in>set (take i ps). spec_confidence U (toLowerCase U advice) q \<le> 3 / 10"
  shows "verifyAdvice U advice ctx isoNow v =
     Inr (\<lparr>isValid = True,
           modifiedAdvice =
             Some (Typed
               (if category (ps ! i) = ''positioning'' \<and> sublist ''position'' (toLowerCase U advice)
                then advice @ '' - Consider enemy threat ranges''
                else if category (ps ! i) = ''itemization'' \<and> sublist ''buy'' (toLowerCase U advice)
                then advice @ '' - Check enemy builds first''
                else advice)),
           verdict_category = Some (category (ps ! i)),
           confidence = Number (spec_confidence U (toLowerCase U advice) (ps ! i)),
           warning = None\<rparr>, v)"
proof -
  from nohit have inv: "invalidPass (toLowerCase U advice) ps = None"
    by (simp add: invalidPass_None list_all_iff)
  from first have "list_all (\<lambda>q. spec_confidence U (toLowerCase U advice) q \<le> 3 / 10) (take i ps)"
    by (simp add: list_all_iff)
  from positivePass_at [OF i pos this] verifyAdvice_accept [OF typed inv, of _ _ ctx isoNow]
  show ?thesis by (simp add: enhanceAdvice_spec)
qed

text \<open>
  C5 at a concrete input: the second moba principle is the first to match, with three
  keywords and one phrase out of ten entries.
\<close>

theorem positive_match_first_principle_witness:
  "verifyAdvice caseless ''Buy magic resist and upgrade your build'' (None :: unit option)
       ''2025-07-08T10:00:00.000Z'' (new_CoachingVerifier ''moba'') =
     Inr (\<lparr>isValid = True,
           modifiedAdvice =
             Some (Typed ''Buy magic resist and upgrade your build - Check enemy builds first''),
           verdict_category = Some ''itemization'',
           confidence = Number (1 / 2),
           warning = None\<rparr>,
          new_CoachingVerifier ''moba'')"
proof -
  let ?a = "''Buy magic resist and upgrade your build''"
  have typed: "currentGameSyllabus (new_CoachingVerifier ''moba'') = Typed moba"
    by (simp add: new_moba)
  have nohit: "\<forall>p\<in>set moba. \<forall>x\<in>set (invalidPatterns p). \<not> sublist x (toLowerCase caseless ?a)"
    by code_simp
  have i: "1 < length moba"
    by (simp add: moba_def)
  have pos: "3 / 10 < spec_confidence caseless (toLowerCase caseless ?a) (moba ! 1)"
    by code_simp
  have first: "\<forall>q\<in>set (take 1 moba). spec_confidence caseless (toLowerCase caseless ?a) q \<le> 3 / 10"
    by code_simp
  have cat: "category (moba ! 1) = ''itemization''"
    by (simp add: moba_def)
  have buy: "sublist ''buy'' (toLowerCase caseless ?a) = True"
    by code_simp
  have conf: "spec_confidence caseless (toLowerCase caseless ?a) (moba ! 1) = 1 / 2"
    by code_simp
  from positive_match_first_principle [OF typed nohit i pos first,
      of "None :: unit option" "''2025-07-08T10:00:00.000Z''"]
  show ?thesis unfolding cat buy conf by simp
qed

subsection \<open>C6: the generic fallback\<close>

text \<open>
  Claim C6. Let the verifier hold a list of principles, let the lower-cased advice
  contain no invalid pattern, and let no principle reach a confidence above 0.3. Then
  \<open>verifyAdvice\<close> returns \<open>isValid = True\<close> exactly when the text contains an
  actionable term and no absolute term; the confidence is 0.6, there is no
  \<open>modifiedAdvice\<close>, and the warning is present exactly when the advice is rejected.
\<close>

theorem generic_fallback_heuristic:
  assumes typed: "currentGameSyllabus v = Typed ps"
    and nohit: "\<forall>p\<in>set ps. \<forall>x\<in>set (invalidPatterns p). \<not> sublist x (toLowerCase U advice)"
    and nopos: "\<forall>p\<in>set ps. spec_confidence U (toLowerCase U advice) p \<le> 3 / 10"
  shows "verifyAdvice U advice ctx isoNow v =
     Inr (\<lparr>isValid =
             ((\<exists>t\<in>set [''try'', ''focus'', ''consider'', ''practice'', ''improve'', ''work on''].
                 sublist t (toLowerCase U advice)) \<and>
              \<not> (\<exists>t\<in>set [''always'', ''never'', ''impossible'', ''guaranteed''].
                 sublist t (toLowerCase U advice))),
           modifiedAdvice = None,
           verdict_category = None,
           confidence = Number (6 / 10),
           warning =
             (if (\<exists>t\<in>set [''try'', ''focus'', ''consider'', ''practice'', ''improve'', ''work on''].
                    sublist t (toLowerCase U advice)) \<and>
                 \<not> (\<exists>t\<in>set [''always'', ''never'', ''impossible'', ''guaranteed''].
                    sublist t (toLowerCase U advice))
              then None else Some ''Advice not aligned with coaching principles'')\<rparr>, v)"
proof -
  from nohit have inv: "invalidPass (toLowerCase U advice) ps = None"
    by (simp add: invalidPass_None list_all_iff)
  from nopos have "positivePass U (toLowerCase U advice) ps = None"
    by (simp add: positivePass_None list_all_iff)
  from verifyAdvice_generic [OF typed inv this, of ctx isoNow]
  show ?thesis unfolding isGenerallyValid_spec .
qed

text \<open>
  C6 at two concrete inputs for the moba verifier: one accepted, one rejected for the
  absolute term \<open>never\<close>.
\<close>

theorem generic_fallback_heuristic_witness:
  "verifyAdvice caseless ''Try to improve your aim'' (None :: unit option)
       ''2025-07-08T10:00:00.000Z'' (new_CoachingVerifier ''moba'') =
     Inr (\<lparr>isValid = True,
           modifiedAdvice = None,
           verdict_category = None,
           confidence = Number (6 / 10),
           warning = None\<rparr>,
          new_CoachingVerifier ''moba'') \<and>
   verifyAdvice caseless ''You will never improve'' (None :: unit option)
       ''2025-07-08T10:00:00.000Z'' (new_CoachingVerifier ''moba'') =
     Inr (\<lparr>isValid = False,
           modifiedAdvice = None,
           verdict_category = None,
           confidence = Number (6 / 10),
           warning = Some ''Advice not aligned with coaching principles''\<rparr>,
          new_CoachingVerifier ''moba'')"
proof -
  let ?a = "''Try to improve your aim''"
  let ?b = "''You will never improve''"
  have typed: "currentGameSyllabus (new_CoachingVerifier ''moba'') = Typed moba"
    by (simp add: new_moba)
  have nohit: "\<forall>p\<in>set moba. \<forall>x\<in>set (invalidPatterns p). \<not> sublist x (toLowerCase caseless ?a)"
    by code_simp
  have nopos: "\<forall>p\<in>set moba. spec_confidence caseless (toLowerCase caseless ?a) p \<le> 3 / 10"
    by code_simp
  have act: "(\<exists>t\<in>set [''try'', ''focus'', ''consider'', ''practice'', ''improve'', ''work on''].
                 sublist t (toLowerCase caseless ?a)) = True"
    by code_simp
  have abs: "(\<exists>t\<in>set [''always'', ''never'', ''impossible'', ''guaranteed''].
                 sublist t (toLowerCase caseless ?a)) = False"
    by code_simp
  have nohit': "\<forall>p\<in>set moba. \<forall>x\<in>set (invalidPatterns p). \<not> sublist x (toLowerCase caseless ?b)"
    by code_simp
  have nopos': "\<forall>p\<in>set moba. spec_confidence caseless (toLowerCase caseless ?b) p \<le> 3 / 10"
    by code_simp
  have act': "(\<exists>t\<in>set [''try'', ''focus'', ''consider'', ''practice'', ''improve'', ''work on''].
                 sublist t (toLowerCase caseless ?b)) = True"
    by code_simp
  have abs': "(\<exists>t\<in>set [''always'', ''never'', ''impossible'', ''guaranteed''].
                 sublist t (toLowerCase caseless ?b)) = True"
    by code_simp
  from generic_fallback_heuristic [OF typed nohit nopos,
      of "None :: unit option" "''2025-07-08T10:00:00.000Z''"]
  have 1: "verifyAdvice caseless ?a (None :: unit option)
       ''2025-07-08T10:00:00.000Z'' (new_CoachingVerifier ''moba'') =
     Inr (\<lparr>isValid = True,
           modifiedAdvice = None,
           verdict_category = None,
           confidence = Number (6 / 10),
           warning = None\<rparr>,
          new_CoachingVerifier ''moba'')"
    unfolding act abs by simp
  from generic_fallback_heuristic [OF typed nohit' nopos',
      of "None :: unit option" "''2025-07-08T10:00:00.000Z''"]
  have 2: "verifyAdvice caseless ?b (None :: unit option)
       ''2025-07-08T10:00:00.000Z'' (new_CoachingVerifier ''moba'') =
     Inr (\<lparr>isValid = False,
           modifiedAdvice = None,
           verdict_category = None,
           confidence = Number (6 / 10),
           warning = Some ''Advice not aligned with coaching principles''\<rparr>,
          new_CoachingVerifier ''moba'')"
    unfolding act' abs' by simp
  from 1 2 show ?thesis by (rule conjI)
qed

subsection \<open>C7: time sensitivity\<close>

text \<open>
  Claim C7. \<open>validateTimeSensitivity\<close> takes the first tier, in the order immediate
  (3000 ms), reactive (5000 ms), positional (10000 ms), one of whose terms occurs in the
  lower-cased text, and returns whether the elapsed time is at most that tier's maximum;
  a text with no tier term is always timely. \<open>"Engage now"\<close> is timely after 2999 ms
  and not after 3001 ms; \<open>"Great rotation"\<close> is timely at every time.
\<close>

theorem time_sensitivity_tiers:
  "validateTimeSensitivity U advice timestamp currentGameTime now =
     (if \<exists>t\<in>set [''engage'', ''attack'', ''push'']. sublist t (toLowerCase U advice)
      then now - timestamp \<le> 3000
      else if \<exists>t\<in>set [''defend'', ''retreat'', ''back'']. sublist t (toLowerCase U advice)
      then now - timestamp \<le> 5000
      else if \<exists>t\<in>set [''ward'', ''position'', ''farm'']. sublist t (toLowerCase U advice)
      then now - timestamp \<le> 10000
      else True) \<and>
   validateTimeSensitivity U ''Engage now'' timestamp currentGameTime (timestamp + 2999) \<and>
   \<not> validateTimeSensitivity U ''Engage now'' timestamp currentGameTime (timestamp + 3001) \<and>
   validateTimeSensitivity U ''Great rotation'' timestamp currentGameTime now"
proof -
  have gen: "validateTimeSensitivity U a ts currentGameTime n =
     (if \<exists>t\<in>set [''engage'', ''attack'', ''push'']. sublist t (toLowerCase U a)
      then n - ts \<le> 3000
      else if \<exists>t\<in>set [''defend'', ''retreat'', ''back'']. sublist t (toLowerCase U a)
      then n - ts \<le> 5000
      else if \<exists>t\<in>set [''ward'', ''position'', ''farm'']. sublist t (toLowerCase U a)
      then n - ts \<le> 10000
      else True)" for a ts n
    unfolding validateTimeSensitivity_def Let_def scanTiers_spec by (rule refl)
  have e: "\<exists>t\<in>set [''engage'', ''attack'', ''push'']. sublist t (toLowerCase U ''Engage now'')"
    by code_simp
  have r1: "\<not> (\<exists>t\<in>set [''engage'', ''attack'', ''push'']. sublist t (toLowerCase U ''Great rotation''))"
    by code_simp
  have r2: "\<not> (\<exists>t\<in>set [''defend'', ''retreat'', ''back'']. sublist t (toLowerCase U ''Great rotation''))"
    by code_simp
  have r3: "\<not> (\<exists>t\<in>set [''ward'', ''position'', ''farm'']. sublist t (toLowerCase U ''Great rotation''))"
    by code_simp
  have "validateTimeSensitivity U ''Engage now'' timestamp currentGameTime (timestamp + 2999)"
    unfolding gen using e by simp
  moreover have "\<not> validateTimeSensitivity U ''Engage now'' timestamp currentGameTime (timestamp + 3001)"
    unfolding gen using e by simp
  moreover have "validateTimeSensitivity U ''Great rotation'' timestamp currentGameTime now"
    unfolding gen using r1 r2 r3 by simp
  ultimately show ?thesis using gen by blast
qed

subsection \<open>C8: unknown game categories\<close>

text \<open>
  Claim C8 says that every string other than the three supported categories gives a
  verifier with an empty principle list. The constructor reads
  \<open>COACHING_SYLLABUS[gameCategory]\<close>, and for the name of a member of
  \<open>Object.prototype\<close> that read yields the inherited member, which is truthy, so the
  fallback to the empty list is not taken. The constructor returns, and every
  \<open>verifyAdvice\<close> on the instance raises \<open>TypeError\<close>:
\<close>

theorem inherited_category_raises:
  "verifyAdvice U advice ctx isoNow (new_CoachingVerifier ''constructor'') = Inl TypeError"
  by (simp add: verifyAdvice_def new_CoachingVerifier_def get_property_def COACHING_SYLLABUS_def
      Object_prototype_def)

subsection \<open>C9: resetting the session\<close>

text \<open>
  Claim C9. After \<open>resetSession\<close> the log is empty, the syllabus is the one chosen at
  construction, and \<open>verifyAdvice\<close> gives the verdict (or the error) it would have
  given before the reset.
\<close>

theorem resetSession_frame:
  "getSessionErrors (resetSession v) = [] \<and>
   currentGameSyllabus (resetSession v) = currentGameSyllabus v \<and>
   map_sum id fst (verifyAdvice U advice ctx isoNow (resetSession v)) =
     map_sum id fst (verifyAdvice U advice ctx isoNow v)"
  using verdict_only_syllabus [of "resetSession v" v U advice ctx isoNow ctx isoNow]
  by (simp add: getSessionErrors_def resetSession_def)

subsection \<open>C10: the context arguments\<close>

text \<open>
  Claim C10. The result of \<open>verifyAdvice\<close> (verdict and verifier) does not depend on
  \<open>gameContext\<close>, and the result of \<open>validateTimeSensitivity\<close> does not depend on
  \<open>currentGameTime\<close>; an absent argument is \<open>None\<close>.
\<close>

theorem context_arguments_ignored:
  "verifyAdvice U advice (gameContext1 :: 'a option) isoNow v =
     verifyAdvice U advice (gameContext2 :: 'b option) isoNow v \<and>
   validateTimeSensitivity U advice timestamp (currentGameTime1 :: 'c option) now =
     validateTimeSensitivity U advice timestamp (currentGameTime2 :: 'd option) now"
  by (simp add: verifyAdvice_def validateTimeSensitivity_def)

end
